theory Spec2Isabelle
  imports Complex_Main
begin

section \<open>JavaScript numbers\<close>

text \<open>
  A JavaScript number is an IEEE 754 binary64 value: \<^verbatim>\<open>NaN\<close>, one of the two infinities,
  or a finite double, given here by its value. The sign of a zero is not modelled; the
  code below never divides by a zero and prints both zeros alike.
\<close>

datatype number = NaN | PInf | NInf | Fin real

text \<open>
  Rounding a real result to the nearest double, ties to even, as every arithmetic
  operator of the language does. For \<open>a > 0\<close>, \<open>expo a\<close> is the binary exponent of \<open>a\<close>,
  kept between -1022 (below it lie the subnormal numbers) and 1023; the doubles around
  \<open>a\<close> are the multiples of \<open>quantum a\<close>, 53 significant bits; \<open>nearest a\<close> is the closest
  of them. A result of \<open>2 ^ 1024\<close> or more is an infinity.
\<close>

definition pow2 :: "int \<Rightarrow> real" where
  "pow2 e = (if 0 \<le> e then 2 ^ nat e else 1 / 2 ^ nat (- e))"

fun up :: "nat \<Rightarrow> int \<Rightarrow> real \<Rightarrow> int" where
  "up 0 e a = e"
| "up (Suc k) e a = (if pow2 (e + 1) \<le> a then up k (e + 1) a else e)"

fun down :: "nat \<Rightarrow> int \<Rightarrow> real \<Rightarrow> int" where
  "down 0 e a = e"
| "down (Suc k) e a = (if a < pow2 e then down k (e - 1) a else e)"

definition expo :: "real \<Rightarrow> int" where
  "expo a = (if 1 \<le> a then up 1023 0 a else down 1022 0 a)"

definition rne :: "real \<Rightarrow> int" where
  "rne x = (if x - of_int \<lfloor>x\<rfloor> < 1 / 2 then \<lfloor>x\<rfloor>
            else if 1 / 2 < x - of_int \<lfloor>x\<rfloor> then \<lfloor>x\<rfloor> + 1
            else if even \<lfloor>x\<rfloor> then \<lfloor>x\<rfloor> else \<lfloor>x\<rfloor> + 1)"

definition quantum :: "real \<Rightarrow> real" where
  "quantum a = pow2 (expo a - 52)"

definition nearest :: "real \<Rightarrow> real" where
  "nearest a = of_int (rne (a / quantum a)) * quantum a"

definition round64 :: "real \<Rightarrow> number" where
  "round64 x =
     (if x = 0 then Fin 0
      else if 0 < x then (if pow2 1024 \<le> nearest x then PInf else Fin (nearest x))
      else (if pow2 1024 \<le> nearest (- x) then NInf else Fin (- nearest (- x))))"

text \<open>The operators \<^verbatim>\<open>x / y\<close>, \<^verbatim>\<open>x * y\<close> and \<^verbatim>\<open>x >= y\<close> on numbers.\<close>

fun js_div :: "number \<Rightarrow> number \<Rightarrow> number" where
  "js_div (Fin a) (Fin b) =
     (if b = 0 then (if a = 0 then NaN else if 0 < a then PInf else NInf)
      else round64 (a / b))"
| "js_div (Fin a) PInf = Fin 0"
| "js_div (Fin a) NInf = Fin 0"
| "js_div PInf (Fin b) = (if 0 \<le> b then PInf else NInf)"
| "js_div NInf (Fin b) = (if 0 \<le> b then NInf else PInf)"
| "js_div x y = NaN"

fun js_mul :: "number \<Rightarrow> number \<Rightarrow> number" where
  "js_mul (Fin a) (Fin b) = round64 (a * b)"
| "js_mul (Fin a) PInf = (if a = 0 then NaN else if 0 < a then PInf else NInf)"
| "js_mul (Fin a) NInf = (if a = 0 then NaN else if 0 < a then NInf else PInf)"
| "js_mul PInf (Fin b) = (if b = 0 then NaN else if 0 < b then PInf else NInf)"
| "js_mul NInf (Fin b) = (if b = 0 then NaN else if 0 < b then NInf else PInf)"
| "js_mul PInf PInf = PInf"
| "js_mul PInf NInf = NInf"
| "js_mul NInf PInf = NInf"
| "js_mul NInf NInf = PInf"
| "js_mul x y = NaN"

fun js_ge :: "number \<Rightarrow> number \<Rightarrow> bool" where
  "js_ge (Fin a) (Fin b) = (b \<le> a)"
| "js_ge (Fin a) NInf = True"
| "js_ge PInf (Fin b) = True"
| "js_ge PInf PInf = True"
| "js_ge PInf NInf = True"
| "js_ge NInf NInf = True"
| "js_ge x y = False"

text \<open>The truth value of a number in a condition: \<^verbatim>\<open>NaN\<close> and zero are falsy.\<close>

fun toBoolean :: "number \<Rightarrow> bool" where
  "toBoolean NaN = False"
| "toBoolean (Fin a) = (a \<noteq> 0)"
| "toBoolean x = True"

text \<open>
  \<^verbatim>\<open>Math.round\<close>: the nearest integer, ties towards plus infinity; \<^verbatim>\<open>NaN\<close> and the infinities
  are returned as they are.
\<close>

fun Math_round :: "number \<Rightarrow> number" where
  "Math_round (Fin a) = Fin (of_int \<lfloor>a + 1 / 2\<rfloor>)"
| "Math_round x = x"

section \<open>The progress store client (src/lib/userProgress.js)\<close>

text \<open>
  Firestore holds one document per user under \<^verbatim>\<open>users/<uid>\<close>. The only field of
  that document this program reads or writes is \<^verbatim>\<open>videoProgress\<close>, an object keyed by video
  id; every other top-level field is kept in \<open>others\<close>. A stored progress record has the
  three fields \<^verbatim>\<open>completed\<close>, \<^verbatim>\<open>pct\<close> and \<^verbatim>\<open>updatedAt\<close> that \<^verbatim>\<open>saveVideoProgress\<close> writes.
\<close>

record entry =
  e_completed :: bool
  e_pct :: number
  e_updatedAt :: int

record userdoc =
  videoProgress :: "(string \<rightharpoonup> entry) option"
  others :: "string \<rightharpoonup> string"

type_synonym store = "string \<rightharpoonup> userdoc"

datatype error =
    NoUid              \<comment> \<open>\<^verbatim>\<open>new Error("No uid for saving progress")\<close>\<close>
  | StoreUnavailable   \<comment> \<open>a rejected \<^verbatim>\<open>getDoc\<close> or \<^verbatim>\<open>setDoc\<close>\<close>

text \<open>The test \<^verbatim>\<open>!uid\<close>: an absent (\<^verbatim>\<open>undefined\<close>, \<^verbatim>\<open>null\<close>) or empty string.\<close>

definition falsy :: "string option \<Rightarrow> bool" where
  "falsy uid = (case uid of None \<Rightarrow> True | Some s \<Rightarrow> s = [])"

text \<open>
  \<^verbatim>\<open>setDoc(doc(db, "users", uid), { videoProgress: { [videoId]: e } }, { merge: true })\<close>:
  the document is created when absent; otherwise only the named key of the nested object is
  replaced.
\<close>

definition setDoc_merge :: "store \<Rightarrow> string \<Rightarrow> string \<Rightarrow> entry \<Rightarrow> store" where
  "setDoc_merge db uid videoId e =
     (case db uid of
        None \<Rightarrow> db(uid \<mapsto> \<lparr>videoProgress = Some [videoId \<mapsto> e], others = Map.empty\<rparr>)
      | Some d \<Rightarrow>
          db(uid \<mapsto> d\<lparr>videoProgress :=
               Some ((case videoProgress d of None \<Rightarrow> Map.empty | Some m \<Rightarrow> m)(videoId \<mapsto> e))\<rparr>))"

text \<open>
  One issued store request, as the client sends it. \<open>reads\<close> and \<open>writes\<close> of a call list
  the requests in order.
\<close>

record write_req =
  w_uid :: string
  w_videoId :: string
  w_entry :: entry

record save_result =
  s_outcome :: "error option"
  s_db :: store
  s_writes :: "write_req list"

text \<open>
  \<^verbatim>\<open>saveVideoProgress(uid, videoId, pct)\<close>. \<open>ok\<close> says whether Firestore accepts the write,
  \<open>now\<close> is \<^verbatim>\<open>Date.now()\<close>.
\<close>

definition saveVideoProgress ::
  "bool \<Rightarrow> int \<Rightarrow> store \<Rightarrow> string option \<Rightarrow> string \<Rightarrow> number \<Rightarrow> save_result" where
  "saveVideoProgress ok now db uid videoId pct =
     (if falsy uid then \<lparr>s_outcome = Some NoUid, s_db = db, s_writes = []\<rparr>
      else
        let completed = js_ge pct (Fin 80);
            e = \<lparr>e_completed = completed, e_pct = Math_round pct, e_updatedAt = now\<rparr>;
            req = \<lparr>w_uid = the uid, w_videoId = videoId, w_entry = e\<rparr>
        in if ok then \<lparr>s_outcome = None, s_db = setDoc_merge db (the uid) videoId e, s_writes = [req]\<rparr>
           else \<lparr>s_outcome = Some StoreUnavailable, s_db = db, s_writes = [req]\<rparr>)"

record fetch_result =
  f_outcome :: "error + (string \<rightharpoonup> entry)"
  f_reads :: "string list"

text \<open>\<^verbatim>\<open>getUserProgress(uid)\<close>. \<open>ok\<close> says whether Firestore answers the read.\<close>

definition getUserProgress :: "bool \<Rightarrow> store \<Rightarrow> string option \<Rightarrow> fetch_result" where
  "getUserProgress ok db uid =
     (if falsy uid then \<lparr>f_outcome = Inr Map.empty, f_reads = []\<rparr>
      else if \<not> ok then \<lparr>f_outcome = Inl StoreUnavailable, f_reads = [the uid]\<rparr>
      else
        (case db (the uid) of
           None \<Rightarrow> \<lparr>f_outcome = Inr Map.empty, f_reads = [the uid]\<rparr>
         | Some d \<Rightarrow>
             (case videoProgress d of
                None \<Rightarrow> \<lparr>f_outcome = Inr Map.empty, f_reads = [the uid]\<rparr>
              | Some m \<Rightarrow> \<lparr>f_outcome = Inr m, f_reads = [the uid]\<rparr>)))"

text \<open>The progress mapping stored for a user, as \<^verbatim>\<open>getUserProgress\<close> would return it.\<close>

definition progress_of :: "store \<Rightarrow> string \<Rightarrow> (string \<rightharpoonup> entry)" where
  "progress_of db uid =
     (case db uid of None \<Rightarrow> Map.empty
      | Some d \<Rightarrow> (case videoProgress d of None \<Rightarrow> Map.empty | Some m \<Rightarrow> m))"

section \<open>The playback monitor (src/components/VideoCard.jsx)\<close>

text \<open>
  \<^verbatim>\<open>auth.currentUser\<close> is \<^verbatim>\<open>null\<close> or a user object with a \<^verbatim>\<open>uid\<close>.
\<close>

record user =
  uid :: string

text \<open>
  The handlers \<^verbatim>\<open>onReady\<close>, \<^verbatim>\<open>onStateChange\<close>, the load effect and the interval callback are
  closures created by one render of the component: they see the values of \<^verbatim>\<open>completed\<close>,
  \<^verbatim>\<open>user\<close> and \<^verbatim>\<open>videoId\<close> that this render bound, whatever \<^verbatim>\<open>setCompleted\<close> does later.
\<close>

record closure =
  c_completed :: bool
  c_user :: "user option"
  c_videoId :: string

text \<open>
  The player handle \<^verbatim>\<open>event.target\<close>; the callback tests
  \<^verbatim>\<open>typeof player.getDuration === "function"\<close>.
\<close>

record player =
  has_getDuration :: bool

text \<open>
  What the two calls \<^verbatim>\<open>player.getDuration()\<close> and \<^verbatim>\<open>player.getCurrentTime()\<close> give on one
  tick: the two numbers (duration first), or an exception.
\<close>

datatype probe = Throws | Reading number number

record save_call =
  k_uid :: string
  k_videoId :: string
  k_pct :: number

text \<open>
  The state of one mounted component together with what it has done to its surroundings:
  the React state \<open>completed\<close> and \<open>pct\<close>, the two refs, the live intervals of this
  component with the closure each one runs, the next handle \<^verbatim>\<open>setInterval\<close> will return,
  the store, the calls of \<^verbatim>\<open>saveVideoProgress\<close> made so far, the console messages, and the
  errors that left a handler uncaught (a thrown exception or a rejected promise nobody
  handles).
\<close>

record world =
  completed :: bool
  pct :: number
  playerRef :: "player option"
  pollRef :: "nat option"
  timers :: "(nat \<times> closure) list"
  next_timer :: nat
  db :: store
  calls :: "save_call list"
  console :: "string list"
  unhandled :: "error list"

text \<open>
  A fresh mount: \<^verbatim>\<open>useState(false)\<close>, \<^verbatim>\<open>useState(0)\<close>, \<^verbatim>\<open>useRef(null)\<close> twice. \<open>n\<close> is the
  handle the first \<^verbatim>\<open>setInterval\<close> of this component will return; the browser hands out
  positive integers.
\<close>

definition mount :: "nat \<Rightarrow> store \<Rightarrow> world" where
  "mount n d = \<lparr>completed = False, pct = Fin 0, playerRef = None, pollRef = None, timers = [],
                next_timer = n, db = d, calls = [], console = [], unhandled = []\<rparr>"

text \<open>The closure environment of a render that reads \<^verbatim>\<open>auth.currentUser = u\<close> and the prop \<open>v\<close>.\<close>

definition render :: "user option \<Rightarrow> string \<Rightarrow> world \<Rightarrow> closure" where
  "render u v w = \<lparr>c_completed = completed w, c_user = u, c_videoId = v\<rparr>"

definition clearInterval :: "nat \<Rightarrow> world \<Rightarrow> world" where
  "clearInterval i w = w\<lparr>timers := filter (\<lambda>t. fst t \<noteq> i) (timers w)\<rparr>"

definition setInterval :: "closure \<Rightarrow> world \<Rightarrow> nat \<times> world" where
  "setInterval env w =
     (next_timer w, w\<lparr>timers := timers w @ [(next_timer w, env)], next_timer := Suc (next_timer w)\<rparr>)"

text \<open>
  The call \<^verbatim>\<open>saveVideoProgress(user.uid, videoId, percent)\<close> from a handler: the call is
  recorded and the store takes the write if it accepts it.
\<close>

definition call_save ::
  "bool \<Rightarrow> int \<Rightarrow> string \<Rightarrow> string \<Rightarrow> number \<Rightarrow> world \<Rightarrow> error option \<times> world" where
  "call_save ok now u v p w =
     (let r = saveVideoProgress ok now (db w) (Some u) v p
      in (s_outcome r,
          w\<lparr>db := s_db r, calls := calls w @ [\<lparr>k_uid = u, k_videoId = v, k_pct = p\<rparr>]\<rparr>))"

text \<open>
  Reading \<^verbatim>\<open>progress[videoId]\<close>. The progress mapping is a plain object, so besides its own
  keys it answers for the members it inherits from \<^verbatim>\<open>Object.prototype\<close>, which are
  functions or objects (truthy) without a \<^verbatim>\<open>completed\<close> or \<^verbatim>\<open>pct\<close> of their own.
\<close>

definition Object_prototype :: "string list" where
  "Object_prototype =
     [''constructor'', ''__defineGetter__'', ''__defineSetter__'', ''hasOwnProperty'',
      ''__lookupGetter__'', ''__lookupSetter__'', ''isPrototypeOf'', ''propertyIsEnumerable'',
      ''toString'', ''valueOf'', ''__proto__'', ''toLocaleString'']"

datatype 'a property = Undefined | Own 'a | Inherited

definition js_index :: "(string \<rightharpoonup> 'a) \<Rightarrow> string \<Rightarrow> 'a property" where
  "js_index obj k =
     (case obj k of
        Some v \<Rightarrow> Own v
      | None \<Rightarrow> if k \<in> set Object_prototype then Inherited else Undefined)"

text \<open>
  The load effect, run with the closure of its render. \<open>ok\<close> says whether the read
  succeeds, \<open>mounted\<close> is the flag the effect's cleanup clears. For a stored record the
  state becomes \<^verbatim>\<open>!!v.completed\<close> and \<^verbatim>\<open>v.pct || 0\<close>; for an inherited member both fields
  are \<^verbatim>\<open>undefined\<close>, so the state becomes \<^verbatim>\<open>false\<close> and 0.
\<close>

definition load :: "closure \<Rightarrow> bool \<Rightarrow> bool \<Rightarrow> world \<Rightarrow> world" where
  "load env ok mounted w =
     (case c_user env of
        None \<Rightarrow> w
      | Some u \<Rightarrow>
          (case f_outcome (getUserProgress ok (db w) (Some (uid u))) of
             Inl err \<Rightarrow> w\<lparr>console := console w @ [''load progress error'']\<rparr>
           | Inr progress \<Rightarrow>
               (case js_index progress (c_videoId env) of
                  Undefined \<Rightarrow> w
                | Own v \<Rightarrow>
                    if mounted
                    then w\<lparr>completed := e_completed v,
                            pct := (if toBoolean (e_pct v) then e_pct v else Fin 0)\<rparr>
                    else w
                | Inherited \<Rightarrow>
                    if mounted then w\<lparr>completed := False, pct := Fin 0\<rparr> else w)))"

text \<open>The guard \<^verbatim>\<open>!duration || duration === 0\<close> of the interval callback.\<close>

definition no_duration :: "number \<Rightarrow> bool" where
  "no_duration duration = (\<not> toBoolean duration \<or> duration = Fin 0)"

text \<open>
  The body of the interval callback that \<^verbatim>\<open>onReady\<close> creates, with the closure \<open>env\<close> of
  the render whose \<^verbatim>\<open>onReady\<close> ran. The percentage is computed in double arithmetic,
  \<^verbatim>\<open>(current / duration) * 100\<close>. Everything is inside \<^verbatim>\<open>try { ... } catch (err) { }\<close>, and
  the awaited save has its own \<^verbatim>\<open>try\<close> that logs the failure.
\<close>

definition tick :: "closure \<Rightarrow> probe \<Rightarrow> bool \<Rightarrow> int \<Rightarrow> world \<Rightarrow> world" where
  "tick env pr ok now w =
     (case playerRef w of
        None \<Rightarrow> w
      | Some player \<Rightarrow>
          if \<not> has_getDuration player then w
          else
            (case pr of
               Throws \<Rightarrow> w
             | Reading duration current \<Rightarrow>
                 if no_duration duration then w
                 else
                   let percent = js_mul (js_div current duration) (Fin 100);
                       w1 = w\<lparr>pct := Math_round percent\<rparr>
                   in if js_ge percent (Fin 80) \<and> \<not> c_completed env
                      then
                        let w2 = w1\<lparr>completed := True\<rparr>
                        in (case c_user env of
                              None \<Rightarrow> w2
                            | Some u \<Rightarrow>
                                (case call_save ok now (uid u) (c_videoId env) percent w2 of
                                   (None, w3) \<Rightarrow> w3
                                 | (Some err, w3) \<Rightarrow>
                                     w3\<lparr>console := console w3 @ [''save progress failed'']\<rparr>))
                      else w1))"

text \<open>\<^verbatim>\<open>onReady(event)\<close> of the render with closure \<open>env\<close>; \<open>target\<close> is \<^verbatim>\<open>event.target\<close>.\<close>

definition onReady :: "closure \<Rightarrow> player option \<Rightarrow> world \<Rightarrow> world" where
  "onReady env target w =
     (let w1 = w\<lparr>playerRef := target\<rparr>;
          w2 = (case pollRef w1 of
                  None \<Rightarrow> w1
                | Some i \<Rightarrow> if i \<noteq> 0 then clearInterval i w1 else w1);
          (i, w3) = setInterval env w2
      in w3\<lparr>pollRef := Some i\<rparr>)"

text \<open>
  \<^verbatim>\<open>onStateChange(event)\<close> of the render with closure \<open>env\<close>; \<open>data\<close> is \<^verbatim>\<open>event.data\<close>. The
  promise of \<^verbatim>\<open>saveVideoProgress\<close> is neither awaited nor given a handler, so its rejection
  is an unhandled one.
\<close>

definition onStateChange :: "closure \<Rightarrow> int \<Rightarrow> bool \<Rightarrow> int \<Rightarrow> world \<Rightarrow> world" where
  "onStateChange env data ok now w =
     (if data = 0 \<and> \<not> c_completed env
      then
        let w1 = w\<lparr>completed := True\<rparr>
        in (case c_user env of
              None \<Rightarrow> w1
            | Some u \<Rightarrow>
                (case call_save ok now (uid u) (c_videoId env) (Fin 100) w1 of
                   (None, w2) \<Rightarrow> w2
                 | (Some err, w2) \<Rightarrow> w2\<lparr>unhandled := unhandled w2 @ [err]\<rparr>))
      else w)"

text \<open>The cleanup of the last effect, run when the component unmounts.\<close>

definition unmount :: "world \<Rightarrow> world" where
  "unmount w =
     (case pollRef w of
        None \<Rightarrow> w
      | Some i \<Rightarrow> if i \<noteq> 0 then clearInterval i w else w)"

text \<open>
  What can happen to a mounted component: the load effect resolves, the player becomes
  ready, the interval with handle \<open>i\<close> fires (if it is live), the player changes state, the
  component unmounts.
\<close>

datatype event =
    Load closure bool bool
  | Ready closure "player option"
  | Interval nat probe bool int
  | StateChange closure int bool int
  | Unmount

fun step :: "world \<Rightarrow> event \<Rightarrow> world" where
  "step w (Load env ok mounted) = load env ok mounted w"
| "step w (Ready env target) = onReady env target w"
| "step w (Interval i pr ok now) =
     (case map_of (timers w) i of None \<Rightarrow> w | Some env \<Rightarrow> tick env pr ok now w)"
| "step w (StateChange env data ok now) = onStateChange env data ok now w"
| "step w Unmount = unmount w"

definition run :: "world \<Rightarrow> event list \<Rightarrow> world" where
  "run w es = foldl step w es"

text \<open>
  The timer discipline of one component: no interval of this component is live, or exactly
  one is, and \<^verbatim>\<open>pollRef.current\<close> holds its (truthy) handle.
\<close>

definition one_timer :: "world \<Rightarrow> bool" where
  "one_timer w =
     (case timers w of
        [] \<Rightarrow> True
      | t # ts \<Rightarrow> ts = [] \<and> pollRef w = Some (fst t) \<and> fst t \<noteq> 0)"

section \<open>The component on its page\<close>

text \<open>
  The component reads \<^verbatim>\<open>auth.currentUser\<close> and its prop \<^verbatim>\<open>videoId\<close> when it renders, and at
  no other time. A page holds the current user of the authentication service, the closure
  of the component's latest render (none before the first one) and the component. Signing
  in or out changes the current user only; a render makes new handlers from the state of
  that moment; the player's events run the handlers of the latest render; a timer runs
  the closure it was created with.
\<close>

record page =
  currentUser :: "user option"
  handlers :: "closure option"
  card :: world

datatype page_event =
    SignIn user
  | SignOut
  | Render string
  | PlayerReady "player option"
  | PlayerState int bool int
  | Timer nat probe bool int

fun page_step :: "page \<Rightarrow> page_event \<Rightarrow> page" where
  "page_step s (SignIn u) = s\<lparr>currentUser := Some u\<rparr>"
| "page_step s SignOut = s\<lparr>currentUser := None\<rparr>"
| "page_step s (Render v) = s\<lparr>handlers := Some (render (currentUser s) v (card s))\<rparr>"
| "page_step s (PlayerReady target) =
     (case handlers s of
        None \<Rightarrow> s
      | Some env \<Rightarrow> s\<lparr>card := step (card s) (Ready env target)\<rparr>)"
| "page_step s (PlayerState data ok now) =
     (case handlers s of
        None \<Rightarrow> s
      | Some env \<Rightarrow> s\<lparr>card := step (card s) (StateChange env data ok now)\<rparr>)"
| "page_step s (Timer i pr ok now) = s\<lparr>card := step (card s) (Interval i pr ok now)\<rparr>"

definition page_run :: "page \<Rightarrow> page_event list \<Rightarrow> page" where
  "page_run s es = foldl page_step s es"

text \<open>A page on which the component has just been mounted and nobody is signed in.\<close>

definition fresh_page :: page where
  "fresh_page = \<lparr>currentUser = None, handlers = None, card = mount 1 Map.empty\<rparr>"

section \<open>A concrete viewing\<close>

text \<open>
  A signed-in viewer, a player whose API is loaded, and the closure of the first render of
  a fresh mount for the video \<^verbatim>\<open>vidA\<close>; the same without a signed-in user. \<open>attached\<close> is the
  mount after \<^verbatim>\<open>onReady\<close> of that first render: the interval with handle 1 is live and runs
  the closure of the first render.
\<close>

definition viewer :: user where
  "viewer = \<lparr>uid = ''u1''\<rparr>"

definition yt :: player where
  "yt = \<lparr>has_getDuration = True\<rparr>"

definition first_render :: closure where
  "first_render = render (Some viewer) ''vidA'' (mount 1 Map.empty)"

definition anonymous_render :: closure where
  "anonymous_render = render None ''vidA'' (mount 1 Map.empty)"

definition attached :: world where
  "attached = run (mount 1 Map.empty) [Ready first_render (Some yt)]"

definition anon_attached :: world where
  "anon_attached = run (mount 1 Map.empty) [Ready anonymous_render (Some yt)]"

section \<open>Properties of double rounding\<close>

text \<open>
  What the rounding above computes. In the range of the normal doubles \<open>expo a\<close> is the
  binary exponent of \<open>a\<close>, and below that range it is -1022; \<open>nearest a\<close> is a multiple
  of the quantum at most half a quantum away from \<open>a\<close>, and a multiple of the quantum is
  left as it is.
\<close>

lemma pow2_pos: "0 < pow2 e"
  by (simp add: pow2_def)

lemma pow2_powi: "pow2 e = 2 powi e"
  by (simp add: pow2_def power_int_def field_simps)

lemma pow2_step: "pow2 (e + 1) = 2 * pow2 e"
  by (simp add: pow2_powi power_int_add)

lemma pow2_mono: "e \<le> e' \<Longrightarrow> pow2 e \<le> pow2 e'"
  by (simp add: pow2_powi power_int_increasing)

lemma up_bracket:
  "pow2 e \<le> a \<Longrightarrow>
     pow2 (up k e a) \<le> a \<and> e \<le> up k e a \<and> up k e a \<le> e + int k
     \<and> (up k e a < e + int k \<longrightarrow> a < pow2 (up k e a + 1))"
proof (induction k arbitrary: e)
  case 0
  then show ?case by simp
next
  case (Suc k)
  show ?case
  proof (cases "pow2 (e + 1) \<le> a")
    case True
    from Suc.IH [OF True] show ?thesis using True by auto
  next
    case False
    with Suc.prems show ?thesis by auto
  qed
qed

lemma down_bracket:
  "a < pow2 (e + 1) \<Longrightarrow>
     a < pow2 (down k e a + 1) \<and> down k e a \<le> e \<and> e - int k \<le> down k e a
     \<and> (e - int k < down k e a \<longrightarrow> pow2 (down k e a) \<le> a)"
proof (induction k arbitrary: e)
  case 0
  then show ?case by simp
next
  case (Suc k)
  show ?case
  proof (cases "a < pow2 e")
    case True
    then have "a < pow2 (e - 1 + 1)" by simp
    from Suc.IH [OF this] show ?thesis using True by auto
  next
    case False
    with Suc.prems show ?thesis by auto
  qed
qed

lemma expo_range: "- 1022 \<le> expo a \<and> expo a \<le> 1023"
proof (cases "1 \<le> a")
  case True
  then have "pow2 0 \<le> a" by (simp add: pow2_def)
  from up_bracket [OF this, of 1023] True show ?thesis by (simp add: expo_def)
next
  case False
  then have "a < pow2 (0 + 1)" by (simp add: pow2_def)
  from down_bracket [OF this, of 1022] False show ?thesis by (simp add: expo_def)
qed

lemma expo_bracket:
  assumes "pow2 (- 1022) \<le> a" and "a < pow2 1024"
  shows "pow2 (expo a) \<le> a \<and> a < pow2 (expo a + 1)"
proof (cases "1 \<le> a")
  case True
  then have "pow2 0 \<le> a" by (simp add: pow2_def)
  from up_bracket [OF this, of 1023] have
    u: "pow2 (up 1023 0 a) \<le> a" "up 1023 0 a \<le> 1023"
       "up 1023 0 a < 1023 \<longrightarrow> a < pow2 (up 1023 0 a + 1)"
    by simp_all
  show ?thesis
  proof (cases "up 1023 0 a < 1023")
    case True
    with u \<open>1 \<le> a\<close> show ?thesis by (simp add: expo_def)
  next
    case False
    with u have "up 1023 0 a = 1023" by simp
    with u assms \<open>1 \<le> a\<close> show ?thesis by (simp add: expo_def)
  qed
next
  case False
  then have "a < pow2 (0 + 1)" by (simp add: pow2_def)
  from down_bracket [OF this, of 1022] have
    d: "a < pow2 (down 1022 0 a + 1)" "- 1022 \<le> down 1022 0 a"
       "- 1022 < down 1022 0 a \<longrightarrow> pow2 (down 1022 0 a) \<le> a"
    by simp_all
  show ?thesis
  proof (cases "- 1022 < down 1022 0 a")
    case True
    with d False show ?thesis by (simp add: expo_def)
  next
    case no: False
    with d have "down 1022 0 a = - 1022" by simp
    with d assms False show ?thesis by (simp add: expo_def)
  qed
qed

lemma expo_subnormal: "a < pow2 (- 1022) \<Longrightarrow> expo a = - 1022"
proof -
  assume s: "a < pow2 (- 1022)"
  have "pow2 (- 1022) \<le> 1" by (simp add: pow2_def)
  with s have f: "\<not> 1 \<le> a" "a < pow2 (0 + 1)" by (simp_all add: pow2_def)
  from down_bracket [OF f(2), of 1022] have
    d: "- 1022 \<le> down 1022 0 a" "- 1022 < down 1022 0 a \<longrightarrow> pow2 (down 1022 0 a) \<le> a"
    by simp_all
  have "\<not> - 1022 < down 1022 0 a"
  proof
    assume l: "- 1022 < down 1022 0 a"
    with d have "pow2 (down 1022 0 a) \<le> a" by simp
    moreover have "pow2 (- 1022) \<le> pow2 (down 1022 0 a)"
      using l by (intro pow2_mono) simp
    ultimately show False using s by simp
  qed
  with d f show ?thesis by (simp add: expo_def)
qed

lemma rne_near: "\<bar>of_int (rne x) - x\<bar> \<le> 1 / 2"
  unfolding rne_def by (auto simp: abs_le_iff)

lemma rne_int: "rne (of_int m) = m"
  by (simp add: rne_def)

lemma quantum_pos: "0 < quantum a"
  by (simp add: quantum_def pow2_pos)

lemma nearest_near: "\<bar>nearest a - a\<bar> \<le> quantum a / 2"
proof -
  have q: "0 < quantum a" by (rule quantum_pos)
  have "nearest a - a = (of_int (rne (a / quantum a)) - a / quantum a) * quantum a"
    using q by (simp add: nearest_def left_diff_distrib)
  then have "\<bar>nearest a - a\<bar> = \<bar>of_int (rne (a / quantum a)) - a / quantum a\<bar> * quantum a"
    using q by (simp add: abs_mult)
  also have "\<dots> \<le> 1 / 2 * quantum a"
    using rne_near [of "a / quantum a"] q by (intro mult_right_mono) simp_all
  finally show ?thesis by simp
qed

lemma nearest_exact: "a = of_int m * quantum a \<Longrightarrow> nearest a = a"
proof -
  assume e: "a = of_int m * quantum a"
  have "a / quantum a = of_int m"
    using quantum_pos [of a] e by (metis less_irrefl nonzero_eq_divide_eq)
  then show ?thesis using e by (simp add: nearest_def rne_int)
qed

subsection \<open>Evaluating double arithmetic\<close>

lemma up_numeral:
  "up (numeral k) e a = (if pow2 (e + 1) \<le> a then up (pred_numeral k) (e + 1) a else e)"
  by (simp add: numeral_eq_Suc)

lemma down_numeral:
  "down (numeral k) e a = (if a < pow2 e then down (pred_numeral k) (e - 1) a else e)"
  by (simp add: numeral_eq_Suc)

lemmas round64_eval =
  round64_def nearest_def quantum_def expo_def up_numeral down_numeral pow2_def rne_def
  js_div.simps js_mul.simps

declare js_div.simps [simp del]

declare js_mul.simps [simp del]

text \<open>
  Some percentages as the engine computes them. 115 s of 200 s is a little less than 57.5,
  and 2.4 s of 3 s (2.4 is the double \<open>5404319552844595 / 2251799813685248\<close>) is exactly 80.
\<close>

lemma percent_examples:
  "js_mul (js_div (Fin 170) (Fin 200)) (Fin 100) = Fin 85"
  "js_mul (js_div (Fin 180) (Fin 200)) (Fin 100) = Fin 90"
  "js_mul (js_div (Fin 160) (Fin 200)) (Fin 100) = Fin 80"
  "js_mul (js_div (Fin 10) (Fin 200)) (Fin 100) = Fin 5"
  "js_mul (js_div (Fin (319 / 2)) (Fin 200)) (Fin 100) = Fin (319 / 4)"
  "js_mul (js_div (Fin 115) (Fin 200)) (Fin 100) = Fin (8092405580431359 / 140737488355328)"
  "js_mul (js_div (Fin (5404319552844595 / 2251799813685248)) (Fin 3)) (Fin 100) = Fin 80"
  by (simp_all add: round64_eval)

lemma Math_round_examples:
  "Math_round (Fin (319 / 4)) = Fin 80"
  "Math_round (Fin (8092405580431359 / 140737488355328)) = Fin 57"
  "Math_round (Fin (159 / 2)) = Fin 80"
  by simp_all

section \<open>Properties of the store client\<close>

lemma progress_of_setDoc_merge:
  "progress_of (setDoc_merge st u v e) u = (progress_of st u)(v \<mapsto> e)"
  by (simp add: progress_of_def setDoc_merge_def split: option.splits)

lemma setDoc_merge_other_user:
  "u' \<noteq> u \<Longrightarrow> setDoc_merge st u v e u' = st u'"
  by (simp add: setDoc_merge_def split: option.splits)

lemma progress_of_setDoc_merge_other_user:
  "u' \<noteq> u \<Longrightarrow> progress_of (setDoc_merge st u v e) u' = progress_of st u'"
  by (simp add: progress_of_def setDoc_merge_other_user)

lemma others_setDoc_merge:
  "st u = Some d \<Longrightarrow> map_option others (setDoc_merge st u v e u) = Some (others d)"
  by (simp add: setDoc_merge_def)

lemma getUserProgress_progress_of:
  "\<not> falsy u \<Longrightarrow> f_outcome (getUserProgress True st u) = Inr (progress_of st (the u))"
  by (simp add: getUserProgress_def progress_of_def split: option.splits)

text \<open>
  C3. \<^verbatim>\<open>saveVideoProgress(uid, videoId, pct)\<close> with an absent or empty \<open>uid\<close> fails with the
  no-uid error, sends nothing and leaves the store as it was. With any other \<open>uid\<close> it sends
  exactly one merge write for the record
  \<^verbatim>\<open>{ completed: pct >= 80, pct: Math.round(pct), updatedAt: now }\<close> under \<open>videoId\<close>, where
  \<open>completed\<close> is decided on the unrounded number, for every number \<open>pct\<close>. When the store accepts the write, the
  user's progress mapping is the old one with that record at \<open>videoId\<close>, a later
  \<^verbatim>\<open>getUserProgress\<close> returns it, and the documents of other users are untouched; when the
  store rejects the write the call fails and the store is as it was.
\<close>

theorem saveVideoProgress_contract:
  "(let r = saveVideoProgress ok now st u v p;
        e = \<lparr>e_completed = js_ge p (Fin 80), e_pct = Math_round p, e_updatedAt = now\<rparr>
    in (falsy u \<longrightarrow> s_outcome r = Some NoUid \<and> s_db r = st \<and> s_writes r = [])
     \<and> (\<not> falsy u \<longrightarrow>
          s_writes r = [\<lparr>w_uid = the u, w_videoId = v, w_entry = e\<rparr>]
          \<and> (ok \<longrightarrow> s_outcome r = None
                \<and> progress_of (s_db r) (the u) = (progress_of st (the u))(v \<mapsto> e)
                \<and> f_outcome (getUserProgress True (s_db r) u)
                    = Inr ((progress_of st (the u))(v \<mapsto> e))
                \<and> (\<forall>u'. u' \<noteq> the u \<longrightarrow> s_db r u' = st u'))
          \<and> (\<not> ok \<longrightarrow> s_outcome r = Some StoreUnavailable \<and> s_db r = st)))"
proof (cases "falsy u")
  case True
  then show ?thesis by (simp add: saveVideoProgress_def Let_def)
next
  case False
  show ?thesis
  proof (cases ok)
    case True
    with False show ?thesis
      by (simp add: saveVideoProgress_def Let_def progress_of_setDoc_merge
          getUserProgress_progress_of setDoc_merge_other_user)
  next
    case no: False
    with False show ?thesis by (simp add: saveVideoProgress_def Let_def)
  qed
qed

theorem saveVideoProgress_contract_witness:
  "falsy (Some '''')
   \<and> s_outcome (saveVideoProgress True 1000 Map.empty (Some '''') ''vidA'' (Fin 85)) = Some NoUid
   \<and> s_db (saveVideoProgress True 1000 Map.empty (Some '''') ''vidA'' (Fin 85)) = Map.empty
   \<and> s_writes (saveVideoProgress True 1000 Map.empty (Some '''') ''vidA'' (Fin 85)) = []
   \<and> \<not> falsy (Some ''u1'')
   \<and> s_outcome (saveVideoProgress True 1000 Map.empty (Some ''u1'') ''vidA'' (Fin (159 / 2))) = None
   \<and> progress_of (s_db (saveVideoProgress True 1000 Map.empty (Some ''u1'') ''vidA'' (Fin (159 / 2))))
        ''u1'' ''vidA''
        = Some \<lparr>e_completed = False, e_pct = Fin 80, e_updatedAt = 1000\<rparr>"
  using saveVideoProgress_contract [of True 1000 Map.empty "Some ''''" "''vidA''" "Fin 85"]
        saveVideoProgress_contract [of True 1000 Map.empty "Some ''u1''" "''vidA''" "Fin (159 / 2)"]
  by (simp add: falsy_def Let_def progress_of_def)

text \<open>
  C7. Merge isolation: a \<^verbatim>\<open>saveVideoProgress\<close> for the video \<open>b\<close> leaves what is stored under
  every other video id \<open>a\<close> as it was, for the writing user and for every other user,
  whether or not the write succeeds.
\<close>

theorem saveVideoProgress_merge_isolation:
  "a \<noteq> b \<Longrightarrow>
     progress_of (s_db (saveVideoProgress ok now st u b p)) u' a = progress_of st u' a"
  by (cases "u' = the u")
     (simp_all add: saveVideoProgress_def Let_def progress_of_setDoc_merge
        progress_of_setDoc_merge_other_user)

theorem saveVideoProgress_merge_isolation_witness:
  "''vidA'' \<noteq> ''vidB'' \<and>
   progress_of (s_db (saveVideoProgress True 2000
       [''u1'' \<mapsto> \<lparr>videoProgress = Some [''vidA'' \<mapsto> \<lparr>e_completed = True, e_pct = Fin 85, e_updatedAt = 1000\<rparr>],
                    others = Map.empty\<rparr>]
       (Some ''u1'') ''vidB'' (Fin 90))) ''u1'' ''vidA''
     = Some \<lparr>e_completed = True, e_pct = Fin 85, e_updatedAt = 1000\<rparr>"
  using saveVideoProgress_merge_isolation [of "''vidA''" "''vidB''" True 2000
       "[''u1'' \<mapsto> \<lparr>videoProgress = Some [''vidA'' \<mapsto> \<lparr>e_completed = True, e_pct = Fin 85, e_updatedAt = 1000\<rparr>],
                    others = Map.empty\<rparr>]" "Some ''u1''" "Fin 90" "''u1''"]
  by (simp add: progress_of_def)

text \<open>
  C10. \<^verbatim>\<open>getUserProgress(uid)\<close> with an absent or empty \<open>uid\<close> returns the empty mapping
  and reads nothing from the store; it does not fail, even when the store is unreachable.
  For a user whose document exists but has no \<^verbatim>\<open>videoProgress\<close> field it returns the empty
  mapping too.
\<close>

theorem getUserProgress_empty:
  "(falsy u \<longrightarrow> getUserProgress ok st u = \<lparr>f_outcome = Inr Map.empty, f_reads = []\<rparr>)
   \<and> (\<not> falsy u \<and> ok \<and> st (the u) = Some d \<and> videoProgress d = None \<longrightarrow>
        f_outcome (getUserProgress ok st u) = Inr Map.empty)"
  by (simp add: getUserProgress_def)

theorem getUserProgress_empty_witness:
  "falsy None \<and> getUserProgress False Map.empty None = \<lparr>f_outcome = Inr Map.empty, f_reads = []\<rparr>
   \<and> \<not> falsy (Some ''u1'')
   \<and> f_outcome (getUserProgress True [''u1'' \<mapsto> \<lparr>videoProgress = None, others = [''name'' \<mapsto> ''Ann'']\<rparr>]
        (Some ''u1'')) = Inr Map.empty"
  using getUserProgress_empty [of None False Map.empty undefined]
        getUserProgress_empty [of "Some ''u1''" True
           "[''u1'' \<mapsto> \<lparr>videoProgress = None, others = [''name'' \<mapsto> ''Ann'']\<rparr>]"
           "\<lparr>videoProgress = None, others = [''name'' \<mapsto> ''Ann'']\<rparr>"]
  by (simp add: falsy_def)

section \<open>Properties of the playback monitor\<close>

subsection \<open>What one handler changes\<close>

lemma tick_frame:
  "playerRef (tick env pr ok now w) = playerRef w"
  "pollRef (tick env pr ok now w) = pollRef w"
  "timers (tick env pr ok now w) = timers w"
  "next_timer (tick env pr ok now w) = next_timer w"
  "unhandled (tick env pr ok now w) = unhandled w"
  by (auto simp: tick_def Let_def call_save_def split: option.splits probe.splits prod.splits)

text \<open>No tick ever calls \<^verbatim>\<open>setCompleted(false)\<close>: a completed component stays completed.\<close>

lemma tick_keeps_completed:
  "completed w \<Longrightarrow> completed (tick env pr ok now w)"
  by (auto simp: tick_def Let_def call_save_def split: option.splits probe.splits prod.splits)

text \<open>
  A tick that gets a sample with a truthy duration: the displayed percentage, the
  completed flag and the calls of \<^verbatim>\<open>saveVideoProgress\<close> afterwards. The guard reads the
  \<open>completed\<close> of the closure, not the current state.
\<close>

lemma tick_sampled:
  assumes "playerRef w = Some p" "has_getDuration p" "toBoolean d"
  shows "pct (tick env (Reading d c) ok now w) = Math_round (js_mul (js_div c d) (Fin 100))"
    and "completed (tick env (Reading d c) ok now w)
           = (completed w \<or> (js_ge (js_mul (js_div c d) (Fin 100)) (Fin 80) \<and> \<not> c_completed env))"
    and "calls (tick env (Reading d c) ok now w)
           = calls w @ (if js_ge (js_mul (js_div c d) (Fin 100)) (Fin 80) \<and> \<not> c_completed env
                        then (case c_user env of None \<Rightarrow> []
                              | Some u \<Rightarrow> [\<lparr>k_uid = uid u, k_videoId = c_videoId env,
                                             k_pct = js_mul (js_div c d) (Fin 100)\<rparr>])
                        else [])"
proof -
  have nz: "\<not> no_duration d"
    using assms(3) by (auto simp: no_duration_def)
  show "pct (tick env (Reading d c) ok now w) = Math_round (js_mul (js_div c d) (Fin 100))"
    using assms nz
    by (auto simp: tick_def Let_def call_save_def split: option.splits prod.splits)
  show "completed (tick env (Reading d c) ok now w)
           = (completed w \<or> (js_ge (js_mul (js_div c d) (Fin 100)) (Fin 80) \<and> \<not> c_completed env))"
    using assms nz
    by (auto simp: tick_def Let_def call_save_def split: option.splits prod.splits)
  show "calls (tick env (Reading d c) ok now w)
           = calls w @ (if js_ge (js_mul (js_div c d) (Fin 100)) (Fin 80) \<and> \<not> c_completed env
                        then (case c_user env of None \<Rightarrow> []
                              | Some u \<Rightarrow> [\<lparr>k_uid = uid u, k_videoId = c_videoId env,
                                             k_pct = js_mul (js_div c d) (Fin 100)\<rparr>])
                        else [])"
    using assms nz
    by (auto simp: tick_def Let_def call_save_def split: option.splits prod.splits)
qed

text \<open>A tick whose duration is falsy (zero or \<^verbatim>\<open>NaN\<close>) changes nothing.\<close>

lemma tick_no_duration:
  "\<not> toBoolean d \<Longrightarrow> tick env (Reading d c) ok now w = w"
  by (simp add: tick_def no_duration_def split: option.splits)

lemma load_frame:
  "timers (load env ok m w) = timers w"
  "pollRef (load env ok m w) = pollRef w"
  "next_timer (load env ok m w) = next_timer w"
  by (auto simp: load_def split: option.splits sum.splits property.splits)

lemma onStateChange_frame:
  "timers (onStateChange env data ok now w) = timers w"
  "pollRef (onStateChange env data ok now w) = pollRef w"
  "next_timer (onStateChange env data ok now w) = next_timer w"
  by (auto simp: onStateChange_def Let_def call_save_def split: option.splits prod.splits)

subsection \<open>The concrete viewing, evaluated\<close>

lemma first_render_eq:
  "first_render = \<lparr>c_completed = False, c_user = Some viewer, c_videoId = ''vidA''\<rparr>"
  by (simp add: first_render_def render_def mount_def)

lemma anonymous_render_eq:
  "anonymous_render = \<lparr>c_completed = False, c_user = None, c_videoId = ''vidA''\<rparr>"
  by (simp add: anonymous_render_def render_def mount_def)

lemma attached_eq:
  "attached = \<lparr>completed = False, pct = Fin 0, playerRef = Some yt, pollRef = Some 1,
       timers = [(1, first_render)], next_timer = 2, db = Map.empty, calls = [], console = [],
       unhandled = []\<rparr>"
  by (simp add: attached_def run_def onReady_def mount_def setInterval_def Let_def)

lemma anon_attached_eq:
  "anon_attached = \<lparr>completed = False, pct = Fin 0, playerRef = Some yt, pollRef = Some 1,
       timers = [(1, anonymous_render)], next_timer = 2, db = Map.empty, calls = [],
       console = [], unhandled = []\<rparr>"
  by (simp add: anon_attached_def run_def onReady_def mount_def setInterval_def Let_def)

subsection \<open>The timer discipline\<close>

lemma one_timer_frame:
  "timers w' = timers w \<Longrightarrow> pollRef w' = pollRef w \<Longrightarrow> one_timer w' = one_timer w"
  by (simp add: one_timer_def cong: list.case_cong)

lemma onReady_timers:
  assumes "one_timer w" and "0 < next_timer w"
  shows "timers (onReady env target w) = [(next_timer w, env)]"
    and "pollRef (onReady env target w) = Some (next_timer w)"
    and "next_timer (onReady env target w) = Suc (next_timer w)"
  using assms
  by (auto simp: one_timer_def onReady_def clearInterval_def setInterval_def Let_def
      split: option.splits list.splits)

lemma unmount_timers:
  assumes "one_timer w"
  shows "timers (unmount w) = []" and "next_timer (unmount w) = next_timer w"
  using assms
  by (auto simp: one_timer_def unmount_def clearInterval_def split: option.splits list.splits)

lemma step_invariant:
  assumes "one_timer w" and "0 < next_timer w"
  shows "one_timer (step w e) \<and> 0 < next_timer (step w e)"
proof (cases e)
  case (Load env ok m)
  have "one_timer (load env ok m w) = one_timer w"
    by (rule one_timer_frame) (simp_all add: load_frame)
  with Load assms show ?thesis by (simp add: load_frame)
next
  case (Ready env target)
  with assms show ?thesis by (simp add: one_timer_def onReady_timers)
next
  case (Interval i pr ok now)
  have "one_timer (tick env' pr ok now w) = one_timer w" for env'
    by (rule one_timer_frame) (simp_all add: tick_frame)
  with Interval assms show ?thesis by (simp add: tick_frame split: option.splits)
next
  case (StateChange env data ok now)
  have "one_timer (onStateChange env data ok now w) = one_timer w"
    by (rule one_timer_frame) (simp_all add: onStateChange_frame)
  with StateChange assms show ?thesis by (simp add: onStateChange_frame)
next
  case Unmount
  with assms show ?thesis by (simp add: one_timer_def unmount_timers)
qed

lemma run_invariant:
  "one_timer w \<Longrightarrow> 0 < next_timer w \<Longrightarrow> one_timer (run w es) \<and> 0 < next_timer (run w es)"
  unfolding run_def
proof (induction es arbitrary: w)
  case Nil
  then show ?case by simp
next
  case (Cons e es)
  then show ?case using step_invariant [of w e] by simp
qed

lemma mount_invariant: "0 < n \<Longrightarrow> one_timer (mount n st) \<and> 0 < next_timer (mount n st)"
  by (simp add: one_timer_def mount_def)

lemma run_snoc: "run w (es @ [e]) = step (run w es) e"
  by (simp add: run_def)

text \<open>
  C6. At most one sampling timer of a component is live at any time. The browser's timer
  handles being positive, after every sequence of events of a mount (load results,
  \<^verbatim>\<open>onReady\<close> calls, ticks, player state changes, unmounts) at most one interval is live;
  after an \<^verbatim>\<open>onReady\<close> the only live interval is the one it created, held in \<^verbatim>\<open>pollRef\<close> and
  running the closure of that \<^verbatim>\<open>onReady\<close>, so after two \<^verbatim>\<open>onReady\<close> calls in a row only the
  second one's interval is left; after an unmount none is live.
\<close>

theorem single_active_timer:
  assumes "0 < n"
  shows "length (timers (run (mount n st) es)) \<le> 1
   \<and> timers (run (mount n st) (es @ [Ready env target]))
       = [(the (pollRef (run (mount n st) (es @ [Ready env target]))), env)]
   \<and> timers (run (mount n st) (es @ [Ready env1 target1, Ready env2 target2]))
       = [(the (pollRef (run (mount n st) (es @ [Ready env1 target1, Ready env2 target2]))), env2)]
   \<and> timers (run (mount n st) (es @ [Unmount])) = []"
proof -
  have inv: "one_timer (run (mount n st) es') \<and> 0 < next_timer (run (mount n st) es')" for es'
    using run_invariant mount_invariant [OF assms] by blast
  have a: "length (timers (run (mount n st) es)) \<le> 1"
    using inv [of es] by (auto simp: one_timer_def split: list.splits)
  have b: "timers (run (mount n st) (es' @ [Ready env' target']))
       = [(the (pollRef (run (mount n st) (es' @ [Ready env' target']))), env')]" for es' env' target'
    using inv [of es'] by (simp add: run_snoc onReady_timers)
  have c: "timers (run (mount n st) (es @ [Unmount])) = []"
    using inv [of es] by (simp add: run_snoc unmount_timers)
  from b [of "es @ [Ready env1 target1]" env2 target2] a b [of es env target] c
  show ?thesis by simp
qed

theorem single_active_timer_witness:
  "(0::nat) < 1
   \<and> timers (run (mount 1 Map.empty) [Ready first_render (Some yt), Ready anonymous_render (Some yt)])
     = [(2, anonymous_render)]
   \<and> timers (run (mount 1 Map.empty) [Ready first_render (Some yt), Unmount]) = []"
  using single_active_timer [of 1 Map.empty "[]" first_render "Some yt" anonymous_render "Some yt"]
        single_active_timer [of 1 Map.empty "[Ready first_render (Some yt)]"]
  by (simp add: run_def onReady_def mount_def setInterval_def clearInterval_def Let_def)

subsection \<open>Sampling and the completion transition\<close>

lemma interval_attached:
  "timers w = [(1, first_render)] \<Longrightarrow> step w (Interval 1 pr ok now) = tick first_render pr ok now w"
  by simp

lemma tick_attached:
  assumes "playerRef w = Some yt" and "toBoolean d"
  shows "pct (tick first_render (Reading d c) ok now w) = Math_round (js_mul (js_div c d) (Fin 100))"
    and "completed (tick first_render (Reading d c) ok now w)
           = (completed w \<or> js_ge (js_mul (js_div c d) (Fin 100)) (Fin 80))"
    and "calls (tick first_render (Reading d c) ok now w)
           = calls w @ (if js_ge (js_mul (js_div c d) (Fin 100)) (Fin 80)
                        then [\<lparr>k_uid = ''u1'', k_videoId = ''vidA'',
                               k_pct = js_mul (js_div c d) (Fin 100)\<rparr>]
                        else [])"
  using assms tick_sampled [of w yt d first_render c ok now]
  by (simp_all add: yt_def first_render_eq viewer_def)

lemma attached_fields:
  "playerRef attached = Some yt" "completed attached = False" "calls attached = []"
  "timers attached = [(1, first_render)]" "unhandled attached = []" "console attached = []"
  by (simp_all add: attached_eq)

text \<open>
  C2, as the code has it. On a tick whose player is attached and reports a truthy duration
  (not zero, not \<^verbatim>\<open>NaN\<close>) the displayed \<open>pct\<close> becomes \<^verbatim>\<open>Math.round\<close> of the sampled
  percent, the double \<^verbatim>\<open>(current / duration) * 100\<close>. The completion test is made on that
  percent before it is rounded to an integer: for a callback whose \<open>completed\<close> is the
  component's current one, the transition (completed set to true, and one call of
  \<^verbatim>\<open>saveVideoProgress\<close> with the unrounded percent when a user is signed in) happens exactly
  when the percent is 80 or more and \<open>completed\<close> is still false; otherwise the flag and
  the calls stay as they were.
\<close>

theorem tick_threshold:
  assumes "playerRef w = Some p" and "has_getDuration p" and "toBoolean d"
    and "c_completed env = completed w"
  shows "pct (tick env (Reading d c) ok now w) = Math_round (js_mul (js_div c d) (Fin 100))
    \<and> (js_ge (js_mul (js_div c d) (Fin 100)) (Fin 80) \<and> \<not> completed w \<longrightarrow>
          completed (tick env (Reading d c) ok now w)
          \<and> calls (tick env (Reading d c) ok now w)
              = calls w @ (case c_user env of None \<Rightarrow> []
                           | Some u \<Rightarrow> [\<lparr>k_uid = uid u, k_videoId = c_videoId env,
                                          k_pct = js_mul (js_div c d) (Fin 100)\<rparr>]))
    \<and> (\<not> (js_ge (js_mul (js_div c d) (Fin 100)) (Fin 80) \<and> \<not> completed w) \<longrightarrow>
          completed (tick env (Reading d c) ok now w) = completed w
          \<and> calls (tick env (Reading d c) ok now w) = calls w)"
  using assms tick_sampled [of w p d env c ok now] by auto

theorem tick_threshold_witness:
  "playerRef attached = Some yt \<and> has_getDuration yt \<and> toBoolean (Fin 200)
   \<and> c_completed first_render = completed attached
   \<and> js_mul (js_div (Fin 160) (Fin 200)) (Fin 100) = Fin 80
   \<and> js_ge (Fin 80) (Fin 80) \<and> \<not> completed attached
   \<and> pct (tick first_render (Reading (Fin 200) (Fin 160)) True 1000 attached) = Fin 80
   \<and> completed (tick first_render (Reading (Fin 200) (Fin 160)) True 1000 attached)
   \<and> calls (tick first_render (Reading (Fin 200) (Fin 160)) True 1000 attached)
        = [\<lparr>k_uid = ''u1'', k_videoId = ''vidA'', k_pct = Fin 80\<rparr>]"
  using tick_threshold [of attached yt "Fin 200" first_render "Fin 160" True 1000]
  by (simp add: attached_eq first_render_eq yt_def viewer_def percent_examples)

text \<open>
  The percent rounded to an integer is not what decides: at 159.5 s of 200 s the sample
  is 79.75, the displayed \<open>pct\<close> is 80, and the tick neither completes nor saves.
\<close>

theorem tick_threshold_rounded_counterexample:
  "playerRef attached = Some yt \<and> has_getDuration yt \<and> toBoolean (Fin 200)
   \<and> \<not> completed attached
   \<and> js_ge (Math_round (js_mul (js_div (Fin (319 / 2)) (Fin 200)) (Fin 100))) (Fin 80)
   \<and> pct (tick first_render (Reading (Fin 200) (Fin (319 / 2))) True 1000 attached) = Fin 80
   \<and> \<not> completed (tick first_render (Reading (Fin 200) (Fin (319 / 2))) True 1000 attached)
   \<and> calls (tick first_render (Reading (Fin 200) (Fin (319 / 2))) True 1000 attached) = []"
  by (simp add: tick_attached attached_fields percent_examples yt_def)

text \<open>
  Two samples on which double arithmetic and exact arithmetic part: 115 s of 200 s is
  displayed as 57, not 58, and 2.4 s of 3 s reaches 80 and completes.
\<close>

lemma tick_double_arithmetic:
  "pct (tick first_render (Reading (Fin 200) (Fin 115)) True 1000 attached) = Fin 57"
  "completed (tick first_render (Reading (Fin 3) (Fin (5404319552844595 / 2251799813685248))) True 1000
     attached)"
proof -
  have a: "playerRef attached = Some yt" "has_getDuration yt"
    by (simp_all add: attached_eq yt_def)
  show "pct (tick first_render (Reading (Fin 200) (Fin 115)) True 1000 attached) = Fin 57"
    using tick_sampled(1) [OF a, of "Fin 200" first_render "Fin 115" True 1000]
    by (simp add: percent_examples)
  show "completed (tick first_render (Reading (Fin 3) (Fin (5404319552844595 / 2251799813685248))) True 1000
     attached)"
    using tick_sampled(2) [OF a, of "Fin 3" first_render "Fin (5404319552844595 / 2251799813685248)" True 1000]
    by (simp add: percent_examples first_render_eq)
qed

subsection \<open>Repeated completion writes\<close>

text \<open>
  C1 asks for exactly one call of \<^verbatim>\<open>saveVideoProgress\<close> per mount, at the first crossing of
  80. The interval callback tests the \<open>completed\<close> of the render whose \<^verbatim>\<open>onReady\<close> created
  it, and that binding stays false after \<^verbatim>\<open>setCompleted(true)\<close>. In the viewing below (a
  player of 200 s, samples at 170 s, then 10 s after a seek backwards, then 170 s again) the
  first tick completes and saves, and the third tick saves a second time.
\<close>

theorem completion_write_repeated:
  "completed (run attached [Interval 1 (Reading (Fin 200) (Fin 170)) True 1000])
   \<and> calls (run attached [Interval 1 (Reading (Fin 200) (Fin 170)) True 1000])
       = [\<lparr>k_uid = ''u1'', k_videoId = ''vidA'', k_pct = Fin 85\<rparr>]
   \<and> calls (run attached [Interval 1 (Reading (Fin 200) (Fin 170)) True 1000,
                           Interval 1 (Reading (Fin 200) (Fin 10)) True 2000,
                           Interval 1 (Reading (Fin 200) (Fin 170)) True 3000])
       = [\<lparr>k_uid = ''u1'', k_videoId = ''vidA'', k_pct = Fin 85\<rparr>,
          \<lparr>k_uid = ''u1'', k_videoId = ''vidA'', k_pct = Fin 85\<rparr>]"
  by (simp add: run_def interval_attached tick_frame tick_attached percent_examples attached_eq)

text \<open>
  C5 says that a tick after completion only updates the displayed \<open>pct\<close>. The flag is
  indeed never cleared (\<open>tick_keeps_completed\<close>), but a tick after completion that samples
  80 or more does more than update \<open>pct\<close>: here the component is completed by the tick at
  170 s, and the next tick, at 180 s, calls \<^verbatim>\<open>saveVideoProgress\<close> again and overwrites the
  stored record.
\<close>

theorem tick_after_completion_writes:
  "completed (tick first_render (Reading (Fin 200) (Fin 170)) True 1000 attached)
   \<and> calls (tick first_render (Reading (Fin 200) (Fin 170)) True 1000 attached)
        = [\<lparr>k_uid = ''u1'', k_videoId = ''vidA'', k_pct = Fin 85\<rparr>]
   \<and> completed (tick first_render (Reading (Fin 200) (Fin 180)) True 2000
              (tick first_render (Reading (Fin 200) (Fin 170)) True 1000 attached))
   \<and> calls (tick first_render (Reading (Fin 200) (Fin 180)) True 2000
              (tick first_render (Reading (Fin 200) (Fin 170)) True 1000 attached))
        = [\<lparr>k_uid = ''u1'', k_videoId = ''vidA'', k_pct = Fin 85\<rparr>,
           \<lparr>k_uid = ''u1'', k_videoId = ''vidA'', k_pct = Fin 90\<rparr>]
   \<and> progress_of (db (tick first_render (Reading (Fin 200) (Fin 180)) True 2000
              (tick first_render (Reading (Fin 200) (Fin 170)) True 1000 attached))) ''u1'' ''vidA''
        = Some \<lparr>e_completed = True, e_pct = Fin 90, e_updatedAt = 2000\<rparr>"
  by (simp add: attached_eq first_render_eq tick_def no_duration_def yt_def viewer_def Let_def
        call_save_def saveVideoProgress_def falsy_def setDoc_merge_def progress_of_def
        percent_examples)

subsection \<open>Failures of the store\<close>

text \<open>
  On the tick path a failed save is caught and logged, whatever the failure, and nothing is
  left unhandled; the flag set before the save stays set.
\<close>

lemma tick_absorbs_write_failure:
  assumes "playerRef w = Some p" "has_getDuration p" "toBoolean d"
    "js_ge (js_mul (js_div c d) (Fin 100)) (Fin 80)" "\<not> c_completed env"
  shows "unhandled (tick env (Reading d c) False now w) = unhandled w"
    and "completed (tick env (Reading d c) False now w)"
  using assms by (simp_all add: tick_frame tick_sampled)

lemma onStateChange_keeps_completed:
  "completed w \<Longrightarrow> completed (onStateChange env data ok now w)"
  by (auto simp: onStateChange_def Let_def call_save_def split: option.splits prod.splits)

text \<open>
  C4 says that a failed completion write is absorbed on the tick path and on the
  \<^verbatim>\<open>ended\<close> path alike. On the \<^verbatim>\<open>ended\<close> path the promise of \<^verbatim>\<open>saveVideoProgress\<close> is dropped
  without a handler: when the store rejects the write, the component is completed and the
  rejection is left unhandled, while the same failure on a tick is caught and logged.
\<close>

theorem ended_write_failure_unhandled:
  "completed (onStateChange first_render 0 False 1000 attached)
   \<and> calls (onStateChange first_render 0 False 1000 attached)
        = [\<lparr>k_uid = ''u1'', k_videoId = ''vidA'', k_pct = Fin 100\<rparr>]
   \<and> unhandled (onStateChange first_render 0 False 1000 attached) = [StoreUnavailable]
   \<and> console (onStateChange first_render 0 False 1000 attached) = []
   \<and> completed (tick first_render (Reading (Fin 200) (Fin 170)) False 1000 attached)
   \<and> unhandled (tick first_render (Reading (Fin 200) (Fin 170)) False 1000 attached) = []
   \<and> console (tick first_render (Reading (Fin 200) (Fin 170)) False 1000 attached)
        = [''save progress failed'']"
  by (simp add: attached_eq first_render_eq onStateChange_def tick_def no_duration_def yt_def viewer_def Let_def
        call_save_def saveVideoProgress_def falsy_def percent_examples)

text \<open>
  A failed read in the load effect, in any state of the component: the failure is caught
  and logged and nothing else changes.
\<close>

lemma load_failure:
  assumes "c_user env = Some u" and "uid u \<noteq> []"
  shows "load env False m w = w\<lparr>console := console w @ [''load progress error'']\<rparr>"
  using assms by (simp add: load_def getUserProgress_def falsy_def)

text \<open>
  C8. Fail-open seeding: when the read of the load effect fails (a signed-in user with a
  non-empty uid, the store unreachable), the failure is caught and logged, nothing is left
  unhandled, and the state of the component is untouched, whatever it was; on a fresh
  mount it stays \<open>pct = 0\<close> and \<open>completed = False\<close>. After that an \<^verbatim>\<open>onReady\<close> and a tick
  with a truthy duration still set \<open>pct\<close> to the rounded percent, and the tick completes
  the component and saves exactly when the sampled percent is 80 or more.
\<close>

theorem seed_failure_fail_open:
  assumes "c_user env = Some u" and "uid u \<noteq> []"
  shows "load env False m w = w\<lparr>console := console w @ [''load progress error'']\<rparr>
    \<and> completed (load env False m w) = completed w
    \<and> pct (load env False m w) = pct w
    \<and> unhandled (load env False m w) = unhandled w
    \<and> completed (load env False m (mount n st)) = False
    \<and> pct (load env False m (mount n st)) = Fin 0
    \<and> unhandled (load env False m (mount n st)) = []
    \<and> (has_getDuration p \<and> toBoolean d \<longrightarrow>
         pct (run (load env False m (mount n st))
                [Ready (render (Some u) v (load env False m (mount n st))) (Some p),
                 Interval n (Reading d c) ok now])
             = Math_round (js_mul (js_div c d) (Fin 100))
         \<and> completed (run (load env False m (mount n st))
                [Ready (render (Some u) v (load env False m (mount n st))) (Some p),
                 Interval n (Reading d c) ok now])
             = js_ge (js_mul (js_div c d) (Fin 100)) (Fin 80)
         \<and> calls (run (load env False m (mount n st))
                [Ready (render (Some u) v (load env False m (mount n st))) (Some p),
                 Interval n (Reading d c) ok now])
             = (if js_ge (js_mul (js_div c d) (Fin 100)) (Fin 80)
                then [\<lparr>k_uid = uid u, k_videoId = v, k_pct = js_mul (js_div c d) (Fin 100)\<rparr>]
                else []))"
proof -
  have l: "load env False m w' = w'\<lparr>console := console w' @ [''load progress error'']\<rparr>" for w'
    using assms by (rule load_failure)
  have g: "load env False m w = w\<lparr>console := console w @ [''load progress error'']\<rparr>
    \<and> completed (load env False m w) = completed w
    \<and> pct (load env False m w) = pct w
    \<and> unhandled (load env False m w) = unhandled w"
    by (simp add: l)
  have f: "completed (load env False m (mount n st)) = False
    \<and> pct (load env False m (mount n st)) = Fin 0
    \<and> unhandled (load env False m (mount n st)) = []"
    by (simp add: l mount_def)
  have t: "has_getDuration p \<and> toBoolean d \<longrightarrow>
         pct (run (load env False m (mount n st))
                [Ready (render (Some u) v (load env False m (mount n st))) (Some p),
                 Interval n (Reading d c) ok now])
             = Math_round (js_mul (js_div c d) (Fin 100))
         \<and> completed (run (load env False m (mount n st))
                [Ready (render (Some u) v (load env False m (mount n st))) (Some p),
                 Interval n (Reading d c) ok now])
             = js_ge (js_mul (js_div c d) (Fin 100)) (Fin 80)
         \<and> calls (run (load env False m (mount n st))
                [Ready (render (Some u) v (load env False m (mount n st))) (Some p),
                 Interval n (Reading d c) ok now])
             = (if js_ge (js_mul (js_div c d) (Fin 100)) (Fin 80)
                then [\<lparr>k_uid = uid u, k_videoId = v, k_pct = js_mul (js_div c d) (Fin 100)\<rparr>]
                else [])"
    unfolding l
    by (simp add: mount_def run_def onReady_def setInterval_def render_def Let_def tick_sampled)
  from g f t show ?thesis by blast
qed

theorem seed_failure_fail_open_witness:
  "c_user first_render = Some viewer \<and> uid viewer \<noteq> []
   \<and> has_getDuration yt \<and> toBoolean (Fin 200)
   \<and> load first_render False True (attached\<lparr>completed := True, pct := Fin 50\<rparr>)
        = attached\<lparr>completed := True, pct := Fin 50, console := [''load progress error'']\<rparr>
   \<and> load first_render False True (mount 1 Map.empty)
        = (mount 1 Map.empty)\<lparr>console := [''load progress error'']\<rparr>
   \<and> pct (run (load first_render False True (mount 1 Map.empty))
                [Ready (render (Some viewer) ''vidA'' (load first_render False True (mount 1 Map.empty)))
                   (Some yt),
                 Interval 1 (Reading (Fin 200) (Fin 170)) True 1000]) = Fin 85
   \<and> completed (run (load first_render False True (mount 1 Map.empty))
                [Ready (render (Some viewer) ''vidA'' (load first_render False True (mount 1 Map.empty)))
                   (Some yt),
                 Interval 1 (Reading (Fin 200) (Fin 170)) True 1000])"
proof -
  have u: "c_user first_render = Some viewer" and n: "uid viewer \<noteq> []"
    by (simp_all add: first_render_eq viewer_def)
  have p: "has_getDuration yt \<and> toBoolean (Fin 200)"
    by (simp add: yt_def)
  have r: "Math_round (js_mul (js_div (Fin 170) (Fin 200)) (Fin 100)) = Fin 85"
    "js_ge (js_mul (js_div (Fin 170) (Fin 200)) (Fin 100)) (Fin 80) = True"
    by (simp_all only: percent_examples) simp_all
  have c: "(attached\<lparr>completed := True, pct := Fin 50\<rparr>)
             \<lparr>console := console (attached\<lparr>completed := True, pct := Fin 50\<rparr>) @ [''load progress error'']\<rparr>
           = attached\<lparr>completed := True, pct := Fin 50, console := [''load progress error'']\<rparr>"
    by (simp add: attached_eq)
  have m: "(mount 1 Map.empty)\<lparr>console := console (mount 1 Map.empty) @ [''load progress error'']\<rparr>
           = (mount 1 Map.empty)\<lparr>console := [''load progress error'']\<rparr>"
    by (simp add: mount_def)
  from seed_failure_fail_open [OF u n, of True "attached\<lparr>completed := True, pct := Fin 50\<rparr>"
         1 Map.empty yt "Fin 200" "''vidA''" "Fin 170" True 1000, unfolded r c]
       seed_failure_fail_open [OF u n, of True "mount 1 Map.empty"
         1 Map.empty yt "Fin 200" "''vidA''" "Fin 170" True 1000, unfolded r m]
    u n p
  show ?thesis by blast
qed

subsection \<open>No signed-in user\<close>

text \<open>
  A handler whose \<open>user\<close> is \<^verbatim>\<open>null\<close> never calls \<^verbatim>\<open>saveVideoProgress\<close> and never changes
  the store, on a tick and on a player state change; when it triggers the completion
  transition the component is completed all the same.
\<close>

lemma handler_without_user:
  assumes "c_user env = None"
  shows "calls (tick env pr ok now w) = calls w \<and> db (tick env pr ok now w) = db w
    \<and> calls (onStateChange env data ok now w) = calls w
    \<and> db (onStateChange env data ok now w) = db w
    \<and> (playerRef w = Some p \<and> has_getDuration p \<and> toBoolean d
          \<and> js_ge (js_mul (js_div c d) (Fin 100)) (Fin 80)
          \<and> \<not> c_completed env \<longrightarrow> completed (tick env (Reading d c) ok now w))
    \<and> (\<not> c_completed env \<longrightarrow> completed (onStateChange env 0 ok now w))"
  using assms
  by (auto simp: tick_def no_duration_def onStateChange_def Let_def split: option.splits probe.splits)

lemma anonymous_viewing:
  "calls (tick anonymous_render (Reading (Fin 200) (Fin 170)) True 1000 anon_attached) = []"
  "completed (tick anonymous_render (Reading (Fin 200) (Fin 170)) True 1000 anon_attached)"
  "calls (onStateChange anonymous_render 0 True 1000 anon_attached) = []"
  "completed (onStateChange anonymous_render 0 True 1000 anon_attached)"
  using handler_without_user [of anonymous_render "Reading (Fin 200) (Fin 170)" True 1000
      anon_attached 0 yt "Fin 200" "Fin 170"]
  by (simp_all add: anon_attached_eq anonymous_render_eq yt_def percent_examples)

text \<open>
  C9 asks that no call of \<^verbatim>\<open>saveVideoProgress\<close> is made when no user is authenticated at
  the time of the transition. The handlers test the \<open>user\<close> their render read from
  \<^verbatim>\<open>auth.currentUser\<close>, not the current one. On the page below the viewer signs in, the
  component renders and the player becomes ready, then the viewer signs out; the next
  tick, at 170 s of 200 s, still saves under the uid of the signed-out viewer. The same
  happens on the \<^verbatim>\<open>ended\<close> signal when the sign-out comes after the latest render.
\<close>

theorem signed_out_completion_still_saves:
  "currentUser (page_run fresh_page
      [SignIn viewer, Render ''vidA'', PlayerReady (Some yt), SignOut,
       Timer 1 (Reading (Fin 200) (Fin 170)) True 1000]) = None
   \<and> completed (card (page_run fresh_page
      [SignIn viewer, Render ''vidA'', PlayerReady (Some yt), SignOut,
       Timer 1 (Reading (Fin 200) (Fin 170)) True 1000]))
   \<and> calls (card (page_run fresh_page
      [SignIn viewer, Render ''vidA'', PlayerReady (Some yt), SignOut,
       Timer 1 (Reading (Fin 200) (Fin 170)) True 1000]))
        = [\<lparr>k_uid = ''u1'', k_videoId = ''vidA'', k_pct = Fin 85\<rparr>]
   \<and> currentUser (page_run fresh_page
      [SignIn viewer, Render ''vidA'', PlayerReady (Some yt), SignOut,
       PlayerState 0 True 1000]) = None
   \<and> calls (card (page_run fresh_page
      [SignIn viewer, Render ''vidA'', PlayerReady (Some yt), SignOut,
       PlayerState 0 True 1000]))
        = [\<lparr>k_uid = ''u1'', k_videoId = ''vidA'', k_pct = Fin 100\<rparr>]"
  by (simp add: page_run_def fresh_page_def render_def mount_def onReady_def setInterval_def
        onStateChange_def tick_def no_duration_def yt_def viewer_def Let_def call_save_def
        saveVideoProgress_def falsy_def percent_examples)

end
